theory Spec2Isabelle
  imports Main
begin

section \<open>Mowafy Sender: the bulk message dispatcher of backend/main.py\<close>

text \<open>
  The development embeds the send endpoint \<^verbatim>\<open>send_messages\<close> and the background
  coroutine \<^verbatim>\<open>send_messages_task\<close> of \<^verbatim>\<open>src/backend/main.py\<close>. Python integers are
  \<open>int\<close>; counters that only grow from zero and list positions are \<open>nat\<close>. Everything the
  coroutine does to the outside world (HTTP posts, sleeps, printed lines) is recorded, in
  order, in a trace of events; an exception is a value.
\<close>

subsection \<open>Data model\<close>

text \<open>\<^verbatim>\<open>class MessageSendConfig(BaseModel)\<close>, lines 52 to 59. The fields are plain
  \<^verbatim>\<open>int\<close>s and strings: the class declares no validator and no bound.\<close>

record config =
  page_id :: string
  access_token :: string
  message_text :: string
  recipient_ids :: "string list"
  delay_between_messages :: int
  batch_size :: int
  batch_delay :: int

text \<open>Exceptions, all of them subclasses of \<^verbatim>\<open>Exception\<close>: the one the modulo of the delay
  logic raises, the one \<^verbatim>\<open>asyncio.sleep\<close> raises on an integer too large for a float, the
  transport errors of \<^verbatim>\<open>client.post\<close> (timeouts, connection errors, ...), and any other,
  by its text.\<close>

datatype py_exception =
  ZeroDivisionError | OverflowError | TransportError string | OtherException string

text \<open>An HTTP response as far as the file reads it: the status code, and the top-level
  fields of the JSON body (the other endpoints test \<^verbatim>\<open>"error" in data\<close>).\<close>

record response =
  status_code :: int
  json :: "(string \<times> string) list"

datatype post_result = Responded response | Raised py_exception

text \<open>The request of lines 214 to 221: url, payload and query parameter.\<close>

record request =
  req_url :: string
  req_recipient :: string
  req_text :: string
  req_token :: string

datatype event = Post request | Sleep int | Print_error py_exception

text \<open>The frame of \<^verbatim>\<open>send_messages_task\<close>: its two local counters and the trace of its
  effects. The coroutine returns \<^verbatim>\<open>None\<close>; the counters are locals and only the trace is
  visible outside.\<close>

record frame =
  successful :: nat
  failed :: nat
  trace :: "event list"

text \<open>The environment answers the \<open>index\<close>-th call of \<^verbatim>\<open>client.post\<close>.\<close>

type_synonym transmitter = "nat \<Rightarrow> post_result"

subsection \<open>Projections of a trace\<close>

fun posts_of :: "event list \<Rightarrow> request list" where
  "posts_of [] = []"
| "posts_of (Post r # es) = r # posts_of es"
| "posts_of (e # es) = posts_of es"

fun sleeps_of :: "event list \<Rightarrow> int list" where
  "sleeps_of [] = []"
| "sleeps_of (Sleep d # es) = d # sleeps_of es"
| "sleeps_of (e # es) = sleeps_of es"

fun log_of :: "event list \<Rightarrow> py_exception list" where
  "log_of [] = []"
| "log_of (Print_error x # es) = x # log_of es"
| "log_of (e # es) = log_of es"

subsection \<open>The coroutine send_messages_task\<close>

definition FB_API_VERSION :: string where
  "FB_API_VERSION = ''v18.0''"

definition FB_GRAPH_URL :: string where
  "FB_GRAPH_URL = ''https://graph.facebook.com/'' @ FB_API_VERSION"

definition task_url :: "config \<Rightarrow> string" where
  "task_url cfg = FB_GRAPH_URL @ ''/'' @ page_id cfg @ ''/messages''"

definition build_request :: "config \<Rightarrow> string \<Rightarrow> request" where
  "build_request cfg recipient_id =
     \<lparr>req_url = task_url cfg, req_recipient = recipient_id,
      req_text = message_text cfg, req_token = access_token cfg\<rparr>"

text \<open>Lines 220 to 227: the post and the inner \<^verbatim>\<open>try\<close>. A status code of 200 counts as
  successful, any other status counts as failed, and an exception of the post is caught
  and counts as failed. The body of the response is not read.\<close>

definition attempt :: "config \<Rightarrow> transmitter \<Rightarrow> nat \<Rightarrow> string \<Rightarrow> frame \<Rightarrow> frame" where
  "attempt cfg env index recipient_id st =
     (let st1 = st\<lparr>trace := trace st @ [Post (build_request cfg recipient_id)]\<rparr> in
      case env index of
        Responded resp \<Rightarrow>
          if status_code resp = 200 then st1\<lparr>successful := successful st1 + 1\<rparr>
          else st1\<lparr>failed := failed st1 + 1\<rparr>
      | Raised e \<Rightarrow> st1\<lparr>failed := failed st1 + 1\<rparr>)"

text \<open>Lines 230 to 233, the argument of the one \<^verbatim>\<open>asyncio.sleep\<close> that follows a post.
  The modulo is the left operand of \<^verbatim>\<open>and\<close>, so it is always evaluated, and Python raises
  where HOL's \<open>mod\<close> would return its left argument. For a negative divisor Python's \<^verbatim>\<open>%\<close>
  and HOL's \<open>mod\<close> on \<open>int\<close> agree (the sign follows the divisor).\<close>

definition wait_after :: "config \<Rightarrow> nat \<Rightarrow> py_exception + int" where
  "wait_after cfg index =
     (if batch_size cfg = 0 then Inl ZeroDivisionError
      else if (int index + 1) mod batch_size cfg = 0 \<and> index + 1 < length (recipient_ids cfg)
        then Inr (batch_delay cfg)
        else Inr (delay_between_messages cfg))"

text \<open>\<^verbatim>\<open>asyncio.sleep(delay)\<close> for an integer \<open>delay\<close>, as the standard library has it (the
  function is not part of the repository): a delay that is zero or negative returns at
  once; any other delay is added to the float clock of the event loop, and Python raises
  \<^verbatim>\<open>OverflowError\<close> when the integer does not convert to a float. The smallest such integer
  is \<open>2 ^ 1024 - 2 ^ 970\<close>, halfway between the largest double and \<open>2 ^ 1024\<close>. Nothing
  is slept when the call raises.\<close>

definition float_limit :: int where
  "float_limit = 2 ^ 1024 - 2 ^ 970"

definition asyncio_sleep :: "int \<Rightarrow> frame \<Rightarrow> (py_exception \<times> frame) + frame" where
  "asyncio_sleep delay st =
     (if delay \<le> 0 then Inr (st\<lparr>trace := trace st @ [Sleep delay]\<rparr>)
      else if float_limit \<le> delay then Inl (OverflowError, st)
      else Inr (st\<lparr>trace := trace st @ [Sleep delay]\<rparr>))"

text \<open>Lines 229 to 233 as a whole: the condition, then the sleep. Both stand outside the
  inner \<^verbatim>\<open>try\<close>, so an exception of either leaves the loop.\<close>

definition delay_logic :: "config \<Rightarrow> nat \<Rightarrow> frame \<Rightarrow> (py_exception \<times> frame) + frame" where
  "delay_logic cfg index st =
     (case wait_after cfg index of
        Inl e \<Rightarrow> Inl (e, st)
      | Inr d \<Rightarrow> asyncio_sleep d st)"

text \<open>The \<^verbatim>\<open>for\<close> loop of line 213 over \<^verbatim>\<open>enumerate(config.recipient_ids)\<close>: \<open>index\<close> is the
  position of the head of the remaining list. An exception leaves the loop with the frame
  as it stands.\<close>

fun send_loop :: "config \<Rightarrow> transmitter \<Rightarrow> nat \<Rightarrow> string list \<Rightarrow> frame \<Rightarrow> (py_exception \<times> frame) + frame" where
  "send_loop cfg env index [] st = Inr st"
| "send_loop cfg env index (recipient_id # rest) st =
     (case delay_logic cfg index (attempt cfg env index recipient_id st) of
        Inl x \<Rightarrow> Inl x
      | Inr st' \<Rightarrow> send_loop cfg env (Suc index) rest st')"

text \<open>Lines 235 and 236: the handler of the outer \<^verbatim>\<open>try\<close> prints the exception and
  nothing else; the coroutine then ends. Creating and closing the client are taken not to
  raise, so the delay logic (its modulo and its sleep) is the only source of an exception
  here.\<close>

definition run_level_handler :: "py_exception \<Rightarrow> frame \<Rightarrow> frame" where
  "run_level_handler e st = st\<lparr>trace := trace st @ [Print_error e]\<rparr>"

definition initial_frame :: frame where
  "initial_frame = \<lparr>successful = 0, failed = 0, trace = []\<rparr>"

definition send_messages_task :: "config \<Rightarrow> transmitter \<Rightarrow> frame" where
  "send_messages_task cfg env =
     (case send_loop cfg env 0 (recipient_ids cfg) initial_frame of
        Inr st \<Rightarrow> st
      | Inl (e, st) \<Rightarrow> run_level_handler e st)"

subsection \<open>The endpoint send_messages\<close>

text \<open>\<^verbatim>\<open>BackgroundTasks\<close> holds the calls to run after the response; the only function ever
  added is \<^verbatim>\<open>send_messages_task\<close>, so a pending call is its configuration.\<close>

type_synonym background_tasks = "config list"

datatype http_exception = HTTPException int py_exception

record acknowledgment =
  status :: string
  message :: string
  total_recipients :: nat

fun digit_char :: "nat \<Rightarrow> char" where
  "digit_char n = char_of (48 + n)"

fun str_nat :: "nat \<Rightarrow> string" where
  "str_nat n = (if n < 10 then [digit_char n] else str_nat (n div 10) @ [digit_char (n mod 10)])"

declare str_nat.simps [simp del]

definition add_task :: "background_tasks \<Rightarrow> config \<Rightarrow> py_exception + background_tasks" where
  "add_task tasks cfg = Inr (tasks @ [cfg])"

text \<open>Lines 190 to 203. Nothing is checked before the task is added: the body reads
  only \<^verbatim>\<open>len(config.recipient_ids)\<close>.\<close>

definition send_messages :: "config \<Rightarrow> background_tasks \<Rightarrow> http_exception + (acknowledgment \<times> background_tasks)" where
  "send_messages cfg tasks =
     (case add_task tasks cfg of
        Inl e \<Rightarrow> Inl (HTTPException 500 e)
      | Inr tasks' \<Rightarrow>
          Inr (\<lparr>status = ''processing'',
                message = ''Started sending '' @ str_nat (length (recipient_ids cfg)) @ '' messages'',
                total_recipients = length (recipient_ids cfg)\<rparr>, tasks'))"

subsection \<open>Classification of a delivery\<close>

text \<open>What line 222 and the handler of line 226 together decide: a delivery is counted
  successful exactly when the post returned a response whose status code is 200.\<close>

definition counted_successful :: "post_result \<Rightarrow> bool" where
  "counted_successful pr =
     (case pr of Responded resp \<Rightarrow> status_code resp = 200 | Raised e \<Rightarrow> False)"

text \<open>An error reported by the API in the body, as the three read endpoints test it
  (\<^verbatim>\<open>if "error" in data\<close>, lines 127, 150 and 171).\<close>

definition reports_error :: "response \<Rightarrow> bool" where
  "reports_error resp = (''error'' \<in> set (map fst (json resp)))"

subsection \<open>Concrete jobs and transmitters\<close>

definition job :: "string list \<Rightarrow> int \<Rightarrow> int \<Rightarrow> int \<Rightarrow> config" where
  "job recipients delay bsize pause =
     \<lparr>page_id = ''1234'', access_token = ''token'', message_text = ''hello'',
      recipient_ids = recipients, delay_between_messages = delay, batch_size = bsize,
      batch_delay = pause\<rparr>"

definition ok_response :: response where
  "ok_response = \<lparr>status_code = 200, json = [(''message_id'', ''m1'')]\<rparr>"

definition error_response :: response where
  "error_response =
     \<lparr>status_code = 200, json = [(''error'', ''(#100) No matching user found'')]\<rparr>"

definition all_ok :: transmitter where
  "all_ok = (\<lambda>k. Responded ok_response)"

definition first_refused :: transmitter where
  "first_refused = (\<lambda>k. if k = 0 then Responded \<lparr>status_code = 400, json = []\<rparr>
                         else Responded ok_response)"

definition twelve_recipients :: "string list" where
  "twelve_recipients =
     [''r1'', ''r2'', ''r3'', ''r4'', ''r5'', ''r6'', ''r7'', ''r8'', ''r9'', ''r10'', ''r11'', ''r12'']"

definition ten_recipients :: "string list" where
  "ten_recipients = take 10 twelve_recipients"

text \<open>A delay that \<^verbatim>\<open>asyncio.sleep\<close> cannot take.\<close>

definition too_long :: int where
  "too_long = 2 ^ 1024"

text \<open>Positions 3 and 7 (indices 2 and 6) fail: one by its status, one by an exception.\<close>

definition flaky :: transmitter where
  "flaky = (\<lambda>k. if k = 2 then Responded \<lparr>status_code = 500, json = []\<rparr>
                 else if k = 6 then Raised (TransportError ''timeout'')
                 else Responded ok_response)"

section \<open>Properties of the loop\<close>

subsection \<open>Traces\<close>

lemma posts_of_append: "posts_of (xs @ ys) = posts_of xs @ posts_of ys"
  by (induction xs rule: posts_of.induct) simp_all

lemma sleeps_of_append: "sleeps_of (xs @ ys) = sleeps_of xs @ sleeps_of ys"
  by (induction xs rule: sleeps_of.induct) simp_all

lemma log_of_append: "log_of (xs @ ys) = log_of xs @ log_of ys"
  by (induction xs rule: log_of.induct) simp_all

lemma recipients_of_requests: "map req_recipient (map (build_request cfg) rs) = rs"
  by (induction rs) (simp_all add: build_request_def)

subsection \<open>One iteration\<close>

lemma attempt_trace: "trace (attempt cfg env i r st) = trace st @ [Post (build_request cfg r)]"
  by (simp add: attempt_def Let_def split: post_result.split)

lemma attempt_successful:
  "successful (attempt cfg env i r st) =
     successful st + (if counted_successful (env i) then 1 else 0)"
  by (simp add: attempt_def Let_def counted_successful_def split: post_result.split)

lemma attempt_failed:
  "failed (attempt cfg env i r st) = failed st + (if counted_successful (env i) then 0 else 1)"
  by (simp add: attempt_def Let_def counted_successful_def split: post_result.split)

lemma float_limit_above: "2 ^ 1023 < float_limit"
  by (simp add: float_limit_def)

lemma too_long_overflows: "0 < too_long \<and> float_limit \<le> too_long"
  by (simp add: float_limit_def too_long_def)

lemma asyncio_sleep_returns:
  "delay < float_limit \<Longrightarrow> asyncio_sleep delay st = Inr (st\<lparr>trace := trace st @ [Sleep delay]\<rparr>)"
  by (simp add: asyncio_sleep_def)

lemma delay_logic_zero:
  "batch_size cfg = 0 \<Longrightarrow> delay_logic cfg i st = Inl (ZeroDivisionError, st)"
  by (simp add: delay_logic_def wait_after_def)

lemma delay_logic_Inr:
  "delay_logic cfg i st = Inr st' \<Longrightarrow>
     st' = st\<lparr>trace := trace st @
       [Sleep (if (int i + 1) mod batch_size cfg = 0 \<and> i + 1 < length (recipient_ids cfg)
               then batch_delay cfg else delay_between_messages cfg)]\<rparr>"
  by (auto simp: delay_logic_def wait_after_def asyncio_sleep_def split: if_splits)

lemma delay_logic_Inl:
  "delay_logic cfg i st = Inl (e, st') \<Longrightarrow>
     st' = st \<and> (e = ZeroDivisionError \<or> e = OverflowError)"
  by (auto simp: delay_logic_def wait_after_def asyncio_sleep_def split: if_splits)

lemma delay_logic_passes:
  "batch_size cfg \<noteq> 0 \<Longrightarrow> delay_between_messages cfg < float_limit \<Longrightarrow>
   batch_delay cfg < float_limit \<Longrightarrow> \<exists>st'. delay_logic cfg i st = Inr st'"
  by (simp add: delay_logic_def wait_after_def asyncio_sleep_returns)

text \<open>Whether the delay logic raises, and what it sleeps, does not depend on the frame.\<close>

lemma asyncio_sleep_shape:
  "(\<forall>s. asyncio_sleep d s = Inl (OverflowError, s)) \<or>
   (\<forall>s. asyncio_sleep d s = Inr (s\<lparr>trace := trace s @ [Sleep d]\<rparr>))"
  by (cases "d \<le> 0"; cases "float_limit \<le> d"; simp add: asyncio_sleep_def)

lemma delay_logic_shape:
  "(\<exists>e. \<forall>s. delay_logic cfg i s = Inl (e, s)) \<or>
   (\<exists>d. \<forall>s. delay_logic cfg i s = Inr (s\<lparr>trace := trace s @ [Sleep d]\<rparr>))"
proof (cases "wait_after cfg i")
  case (Inl e)
  then have "\<forall>s. delay_logic cfg i s = Inl (e, s)"
    by (simp add: delay_logic_def)
  then show ?thesis by blast
next
  case (Inr d)
  then have "\<forall>s. delay_logic cfg i s = asyncio_sleep d s"
    by (simp add: delay_logic_def)
  with asyncio_sleep_shape [of d] show ?thesis
    by metis
qed

text \<open>The condition of the delay logic on its own: inside the list it follows the batch
  rule, and after the last recipient it still asks for \<open>delay_between_messages\<close>.\<close>

lemma wait_after_inner:
  "batch_size cfg \<noteq> 0 \<Longrightarrow> index + 1 < length (recipient_ids cfg) \<Longrightarrow>
     wait_after cfg index =
       Inr (if (int index + 1) mod batch_size cfg = 0 then batch_delay cfg
            else delay_between_messages cfg)"
  by (simp add: wait_after_def)

lemma wait_after_last:
  "batch_size cfg \<noteq> 0 \<Longrightarrow> index + 1 = length (recipient_ids cfg) \<Longrightarrow>
     wait_after cfg index = Inr (delay_between_messages cfg)"
  by (simp add: wait_after_def)

text \<open>One full iteration that does not raise.\<close>

lemma iteration_trace:
  assumes "delay_logic cfg i (attempt cfg env i r st) = Inr mid"
  shows "trace mid = trace st @
       [Post (build_request cfg r),
        Sleep (if (int i + 1) mod batch_size cfg = 0 \<and> i + 1 < length (recipient_ids cfg)
               then batch_delay cfg else delay_between_messages cfg)]"
  using delay_logic_Inr [OF assms] by (simp add: attempt_trace)

lemma iteration_counters:
  assumes "delay_logic cfg i (attempt cfg env i r st) = Inr mid"
  shows "successful mid = successful st + (if counted_successful (env i) then 1 else 0)"
    and "failed mid = failed st + (if counted_successful (env i) then 0 else 1)"
  using delay_logic_Inr [OF assms] by (simp_all add: attempt_successful attempt_failed)

subsection \<open>The whole loop, by induction on the remaining recipients\<close>

lemma upt_step: "[i..<Suc (i + n)] = i # [Suc i..<Suc (i + n)]"
  by (simp add: upt_conv_Cons)

lemma send_loop_Cons_Inr:
  assumes "send_loop cfg env i (r # rs) st = Inr st'"
  obtains mid where "delay_logic cfg i (attempt cfg env i r st) = Inr mid"
    and "send_loop cfg env (Suc i) rs mid = Inr st'"
  using assms by (auto split: sum.splits)

lemma send_loop_completes:
  assumes "batch_size cfg \<noteq> 0" and "delay_between_messages cfg < float_limit"
    and "batch_delay cfg < float_limit"
  shows "\<exists>st'. send_loop cfg env i rs st = Inr st'"
proof (induction rs arbitrary: i st)
  case Nil
  show ?case by simp
next
  case (Cons r rs)
  obtain mid where "delay_logic cfg i (attempt cfg env i r st) = Inr mid"
    using delay_logic_passes [OF assms] by blast
  then show ?case
    using Cons.IH [of "Suc i" mid] by simp
qed

lemma send_loop_zero:
  "batch_size cfg = 0 \<Longrightarrow>
     send_loop cfg env i (r # rs) st = Inl (ZeroDivisionError, attempt cfg env i r st)"
  by (simp add: delay_logic_zero)

lemma send_loop_posts:
  "send_loop cfg env i rs st = Inr st' \<Longrightarrow>
     posts_of (trace st') = posts_of (trace st) @ map (build_request cfg) rs"
proof (induction rs arbitrary: i st)
  case Nil
  then show ?case by simp
next
  case (Cons r rs)
  from Cons.prems obtain mid where d: "delay_logic cfg i (attempt cfg env i r st) = Inr mid"
    and l: "send_loop cfg env (Suc i) rs mid = Inr st'"
    by (rule send_loop_Cons_Inr)
  show ?case
    using Cons.IH [OF l] by (simp add: iteration_trace [OF d] posts_of_append)
qed

lemma send_loop_log:
  "send_loop cfg env i rs st = Inr st' \<Longrightarrow> log_of (trace st') = log_of (trace st)"
proof (induction rs arbitrary: i st)
  case Nil
  then show ?case by simp
next
  case (Cons r rs)
  from Cons.prems obtain mid where d: "delay_logic cfg i (attempt cfg env i r st) = Inr mid"
    and l: "send_loop cfg env (Suc i) rs mid = Inr st'"
    by (rule send_loop_Cons_Inr)
  show ?case
    using Cons.IH [OF l] by (simp add: iteration_trace [OF d] log_of_append)
qed

lemma send_loop_sleeps:
  "send_loop cfg env i rs st = Inr st' \<Longrightarrow>
     sleeps_of (trace st') = sleeps_of (trace st) @
       map (\<lambda>k. if (int k + 1) mod batch_size cfg = 0 \<and> k + 1 < length (recipient_ids cfg)
                 then batch_delay cfg else delay_between_messages cfg) [i..<i + length rs]"
proof (induction rs arbitrary: i st)
  case Nil
  then show ?case by simp
next
  case (Cons r rs)
  from Cons.prems obtain mid where d: "delay_logic cfg i (attempt cfg env i r st) = Inr mid"
    and l: "send_loop cfg env (Suc i) rs mid = Inr st'"
    by (rule send_loop_Cons_Inr)
  show ?case
    using Cons.IH [OF l]
    by (simp add: iteration_trace [OF d] sleeps_of_append upt_step del: upt_Suc)
qed

lemma send_loop_successful:
  "send_loop cfg env i rs st = Inr st' \<Longrightarrow>
     successful st' =
       successful st + length (filter (\<lambda>k. counted_successful (env k)) [i..<i + length rs])"
proof (induction rs arbitrary: i st)
  case Nil
  then show ?case by simp
next
  case (Cons r rs)
  from Cons.prems obtain mid where d: "delay_logic cfg i (attempt cfg env i r st) = Inr mid"
    and l: "send_loop cfg env (Suc i) rs mid = Inr st'"
    by (rule send_loop_Cons_Inr)
  show ?case
    using Cons.IH [OF l] by (simp add: iteration_counters [OF d] upt_step del: upt_Suc)
qed

lemma send_loop_failed:
  "send_loop cfg env i rs st = Inr st' \<Longrightarrow>
     failed st' =
       failed st + length (filter (\<lambda>k. \<not> counted_successful (env k)) [i..<i + length rs])"
proof (induction rs arbitrary: i st)
  case Nil
  then show ?case by simp
next
  case (Cons r rs)
  from Cons.prems obtain mid where d: "delay_logic cfg i (attempt cfg env i r st) = Inr mid"
    and l: "send_loop cfg env (Suc i) rs mid = Inr st'"
    by (rule send_loop_Cons_Inr)
  show ?case
    using Cons.IH [OF l] by (simp add: iteration_counters [OF d] upt_step del: upt_Suc)
qed

text \<open>A loop that is left by an exception has printed nothing so far.\<close>

lemma send_loop_aborts:
  "send_loop cfg env i rs st = Inl (e, st') \<Longrightarrow> log_of (trace st') = log_of (trace st)"
proof (induction rs arbitrary: i st)
  case Nil
  then show ?case by simp
next
  case (Cons r rs)
  show ?case
  proof (cases "delay_logic cfg i (attempt cfg env i r st)")
    case (Inl x)
    with Cons.prems have "delay_logic cfg i (attempt cfg env i r st) = Inl (e, st')"
      by simp
    from delay_logic_Inl [OF this] show ?thesis
      by (simp add: attempt_trace log_of_append)
  next
    case (Inr mid)
    with Cons.prems have "send_loop cfg env (Suc i) rs mid = Inl (e, st')"
      by simp
    from Cons.IH [OF this] show ?thesis
      by (simp add: iteration_trace [OF Inr] log_of_append)
  qed
qed

text \<open>What the loop and the handler write to the trace does not depend on what the
  transmitter answers: the answers only move the two counters.\<close>

lemma send_loop_visible:
  "trace st = trace st2 \<Longrightarrow>
     (case send_loop cfg env i rs st of
        Inr s \<Rightarrow> trace s | Inl (e, s) \<Rightarrow> trace s @ [Print_error e]) =
     (case send_loop cfg env2 i rs st2 of
        Inr s \<Rightarrow> trace s | Inl (e, s) \<Rightarrow> trace s @ [Print_error e])"
proof (induction rs arbitrary: i st st2)
  case Nil
  then show ?case by simp
next
  case (Cons r rs)
  from delay_logic_shape [of cfg i] show ?case
  proof (elim disjE exE)
    fix e
    assume "\<forall>s. delay_logic cfg i s = Inl (e, s)"
    then show ?thesis
      using Cons.prems by (simp add: attempt_trace)
  next
    fix d
    assume a: "\<forall>s. delay_logic cfg i s = Inr (s\<lparr>trace := trace s @ [Sleep d]\<rparr>)"
    have "trace (attempt cfg env i r st\<lparr>trace := trace (attempt cfg env i r st) @ [Sleep d]\<rparr>) =
          trace (attempt cfg env2 i r st2\<lparr>trace := trace (attempt cfg env2 i r st2) @ [Sleep d]\<rparr>)"
      using Cons.prems by (simp add: attempt_trace)
    from Cons.IH [OF this] show ?thesis
      using a by simp
  qed
qed

subsection \<open>The coroutine\<close>

lemma task_zero:
  "batch_size cfg = 0 \<Longrightarrow> recipient_ids cfg = r # rs \<Longrightarrow>
     send_messages_task cfg env =
       run_level_handler ZeroDivisionError (attempt cfg env 0 r initial_frame)"
  by (simp add: send_messages_task_def delay_logic_zero)

lemma task_empty: "recipient_ids cfg = [] \<Longrightarrow> send_messages_task cfg env = initial_frame"
  by (simp add: send_messages_task_def)

lemma task_aborted:
  assumes "send_loop cfg env 0 (recipient_ids cfg) initial_frame = Inl (e, st)"
  shows "send_messages_task cfg env = run_level_handler e st"
    and "log_of (trace (send_messages_task cfg env)) = [e]"
proof -
  show t: "send_messages_task cfg env = run_level_handler e st"
    using assms by (simp add: send_messages_task_def)
  have "log_of (trace st) = []"
    using send_loop_aborts [OF assms] by (simp add: initial_frame_def)
  then show "log_of (trace (send_messages_task cfg env)) = [e]"
    by (simp add: t run_level_handler_def log_of_append)
qed

text \<open>A run that printed nothing is a run whose loop was not left by an exception.\<close>

lemma task_completed:
  assumes "log_of (trace (send_messages_task cfg env)) = []"
  obtains st where "send_loop cfg env 0 (recipient_ids cfg) initial_frame = Inr st"
    and "send_messages_task cfg env = st"
proof (cases "send_loop cfg env 0 (recipient_ids cfg) initial_frame")
  case (Inl x)
  obtain e st where "x = (e, st)" by (cases x)
  with Inl task_aborted(2) [of cfg env e st] assms show ?thesis
    by simp
next
  case (Inr st)
  then have "send_messages_task cfg env = st"
    by (simp add: send_messages_task_def)
  with Inr that show ?thesis by blast
qed

lemma task_completes:
  assumes "batch_size cfg \<noteq> 0" and "delay_between_messages cfg < float_limit"
    and "batch_delay cfg < float_limit"
  shows "log_of (trace (send_messages_task cfg env)) = []"
proof -
  obtain st where l: "send_loop cfg env 0 (recipient_ids cfg) initial_frame = Inr st"
    using send_loop_completes [OF assms] by blast
  then have "send_messages_task cfg env = st"
    by (simp add: send_messages_task_def)
  then show ?thesis
    using send_loop_log [OF l] by (simp add: initial_frame_def)
qed

lemma task_trace_visible:
  "trace (send_messages_task cfg env) =
     (case send_loop cfg env 0 (recipient_ids cfg) initial_frame of
        Inr s \<Rightarrow> trace s | Inl (e, s) \<Rightarrow> trace s @ [Print_error e])"
  by (simp add: send_messages_task_def run_level_handler_def split: sum.split prod.split)

lemma task_trace_independent:
  "trace (send_messages_task cfg env) = trace (send_messages_task cfg env2)"
  unfolding task_trace_visible by (rule send_loop_visible) simp

lemma task_posts:
  assumes "log_of (trace (send_messages_task cfg env)) = []"
  shows "posts_of (trace (send_messages_task cfg env)) =
           map (build_request cfg) (recipient_ids cfg)"
proof -
  obtain st where l: "send_loop cfg env 0 (recipient_ids cfg) initial_frame = Inr st"
    and t: "send_messages_task cfg env = st"
    using assms by (rule task_completed)
  show ?thesis
    using send_loop_posts [OF l] by (simp add: t initial_frame_def)
qed

lemma task_sleeps:
  assumes "log_of (trace (send_messages_task cfg env)) = []"
  shows "sleeps_of (trace (send_messages_task cfg env)) =
     map (\<lambda>k. if (int k + 1) mod batch_size cfg = 0 \<and> k + 1 < length (recipient_ids cfg)
               then batch_delay cfg else delay_between_messages cfg)
       [0..<length (recipient_ids cfg)]"
proof -
  obtain st where l: "send_loop cfg env 0 (recipient_ids cfg) initial_frame = Inr st"
    and t: "send_messages_task cfg env = st"
    using assms by (rule task_completed)
  show ?thesis
    using send_loop_sleeps [OF l] by (simp add: t initial_frame_def)
qed

lemma task_counters:
  assumes "log_of (trace (send_messages_task cfg env)) = []"
  shows "successful (send_messages_task cfg env) =
           length (filter (\<lambda>k. counted_successful (env k)) [0..<length (recipient_ids cfg)])"
    and "failed (send_messages_task cfg env) =
           length (filter (\<lambda>k. \<not> counted_successful (env k)) [0..<length (recipient_ids cfg)])"
proof -
  obtain st where l: "send_loop cfg env 0 (recipient_ids cfg) initial_frame = Inr st"
    and t: "send_messages_task cfg env = st"
    using assms by (rule task_completed)
  show "successful (send_messages_task cfg env) =
           length (filter (\<lambda>k. counted_successful (env k)) [0..<length (recipient_ids cfg)])"
    using send_loop_successful [OF l] by (simp add: t initial_frame_def)
  show "failed (send_messages_task cfg env) =
           length (filter (\<lambda>k. \<not> counted_successful (env k)) [0..<length (recipient_ids cfg)])"
    using send_loop_failed [OF l] by (simp add: t initial_frame_def)
qed

section \<open>The claims\<close>

text \<open>
  C1. The claim: after the send at 1-based position \<open>i\<close> the wait is \<open>batch_delay\<close> when
  \<open>i < total\<close> and \<open>i\<close> is a multiple of \<open>batch_size\<close>, \<open>delay_between_messages\<close> when
  \<open>i < total\<close> otherwise, and nothing when \<open>i = total\<close>; for 12 recipients, batches of 10,
  5 seconds and 30 seconds the waits are 5 (nine times), 30, 5, 0. The code guards only the
  batch branch with \<open>i < total\<close>: the last send falls into the \<^verbatim>\<open>else\<close> branch and is
  followed by a sleep of \<open>delay_between_messages\<close>. On the scenario of the claim the sleeps
  are 5 (nine times), 30, 5 and 5, whatever the transmitter answers.
\<close>

theorem C1_trailing_wait:
  "sleeps_of (trace (send_messages_task (job twelve_recipients 5 10 30) env)) =
     [5, 5, 5, 5, 5, 5, 5, 5, 5, 30, 5, 5]"
proof -
  have "sleeps_of (trace (send_messages_task (job twelve_recipients 5 10 30) all_ok)) =
     [5, 5, 5, 5, 5, 5, 5, 5, 5, 30, 5, 5]"
    by code_simp
  then show ?thesis
    by (simp add: task_trace_independent [of "job twelve_recipients 5 10 30" env all_ok])
qed

text \<open>
  C2. For every run that completes normally (nothing reached the handler of the outer
  \<^verbatim>\<open>try\<close>, so nothing was printed), the two counters add up to the number of recipients;
  \<open>successful\<close> is the number of positions whose delivery was counted successful and
  \<open>failed\<close> the number of the others.
\<close>

theorem C2_tally:
  assumes "log_of (trace (send_messages_task cfg env)) = []"
  shows "successful (send_messages_task cfg env) + failed (send_messages_task cfg env) =
           length (recipient_ids cfg)
       \<and> successful (send_messages_task cfg env) =
           length (filter (\<lambda>k. counted_successful (env k)) [0..<length (recipient_ids cfg)])
       \<and> failed (send_messages_task cfg env) =
           length (filter (\<lambda>k. \<not> counted_successful (env k)) [0..<length (recipient_ids cfg)])"
proof -
  have "length (filter (\<lambda>k. counted_successful (env k)) [0..<length (recipient_ids cfg)]) +
        length (filter (\<lambda>k. \<not> counted_successful (env k)) [0..<length (recipient_ids cfg)]) =
        length [0..<length (recipient_ids cfg)]"
    by (rule sum_length_filter_compl)
  then show ?thesis
    using task_counters [OF assms] by simp
qed

text \<open>The scenario of the claim: ten recipients, positions 3 and 7 fail, the counters end
  at 8 and 2.\<close>

theorem C2_tally_witness:
  "log_of (trace (send_messages_task (job ten_recipients 5 10 30) flaky)) = []
   \<and> successful (send_messages_task (job ten_recipients 5 10 30) flaky) = 8
   \<and> failed (send_messages_task (job ten_recipients 5 10 30) flaky) = 2
   \<and> successful (send_messages_task (job ten_recipients 5 10 30) flaky) +
       failed (send_messages_task (job ten_recipients 5 10 30) flaky) =
       length (recipient_ids (job ten_recipients 5 10 30))
   \<and> length (recipient_ids (job ten_recipients 5 10 30)) = 10"
proof -
  have h: "log_of (trace (send_messages_task (job ten_recipients 5 10 30) flaky)) = []"
    by code_simp
  have s: "successful (send_messages_task (job ten_recipients 5 10 30) flaky) = 8"
    by code_simp
  have f: "failed (send_messages_task (job ten_recipients 5 10 30) flaky) = 2"
    by code_simp
  have n: "length (recipient_ids (job ten_recipients 5 10 30)) = 10"
    by code_simp
  show ?thesis
    using C2_tally [OF h] h s f n by simp
qed

text \<open>
  C3, as the code has it. The claim asks that a job with \<open>batch_size = 0\<close>, a negative
  \<open>batch_size\<close> or a negative delay be refused at submission. Neither the model class nor
  the endpoint checks these fields: for every such job \<^verbatim>\<open>send_messages\<close> raises nothing,
  returns the acknowledgment and leaves the run pending in the background tasks.
\<close>

theorem C3_no_validation:
  assumes "batch_size cfg \<le> 0 \<or> delay_between_messages cfg < 0 \<or> batch_delay cfg < 0"
  shows "send_messages cfg tasks =
     Inr (\<lparr>status = ''processing'',
           message = ''Started sending '' @ str_nat (length (recipient_ids cfg)) @ '' messages'',
           total_recipients = length (recipient_ids cfg)\<rparr>, tasks @ [cfg])"
  by (simp add: send_messages_def add_task_def)

theorem C3_no_validation_witness:
  "(batch_size (job [''r1'', ''r2''] (- 1) 0 (- 30)) \<le> 0
     \<or> delay_between_messages (job [''r1'', ''r2''] (- 1) 0 (- 30)) < 0
     \<or> batch_delay (job [''r1'', ''r2''] (- 1) 0 (- 30)) < 0)
   \<and> send_messages (job [''r1'', ''r2''] (- 1) 0 (- 30)) [] =
     Inr (\<lparr>status = ''processing'', message = ''Started sending 2 messages'',
           total_recipients = 2\<rparr>, [job [''r1'', ''r2''] (- 1) 0 (- 30)])"
proof -
  have h: "batch_size (job [''r1'', ''r2''] (- 1) 0 (- 30)) \<le> 0
     \<or> delay_between_messages (job [''r1'', ''r2''] (- 1) 0 (- 30)) < 0
     \<or> batch_delay (job [''r1'', ''r2''] (- 1) 0 (- 30)) < 0"
    by (simp add: job_def)
  have m: "str_nat 2 = ''2''"
    by code_simp
  have n: "length (recipient_ids (job [''r1'', ''r2''] (- 1) 0 (- 30))) = 2"
    by (simp add: job_def)
  show ?thesis
    using C3_no_validation [OF h, of "[]"] h by (simp add: m n)
qed

text \<open>The claim as stated fails: a job with \<open>batch_size = 0\<close> is acknowledged, and its run
  then posts to the first recipient.\<close>

theorem C3_zero_batch_size_accepted:
  "send_messages (job [''r1'', ''r2''] 5 0 30) [] =
     Inr (\<lparr>status = ''processing'', message = ''Started sending 2 messages'',
           total_recipients = 2\<rparr>, [job [''r1'', ''r2''] 5 0 30])
   \<and> posts_of (trace (send_messages_task (job [''r1'', ''r2''] 5 0 30) all_ok)) =
     [build_request (job [''r1'', ''r2''] 5 0 30) ''r1'']"
  by code_simp

text \<open>
  C4, as the code has it. A delivery that fails, by its status or by an exception of the
  post, is recorded as one more \<open>failed\<close> and nothing else: the inner handler returns a
  frame, never an exception. The posts and the printed lines of a run are the same
  whatever the transmitter answers, so no failure keeps the loop from the next position.
  In every run that completes normally (nothing reached the handler of the outer
  \<^verbatim>\<open>try\<close>, so nothing was printed) the recipients of the posts are the recipient list
  itself: each recipient is posted to once, in list order.
\<close>

theorem C4_failures_do_not_stop_the_loop:
  "(\<not> counted_successful (env i) \<longrightarrow>
      attempt cfg env i r st =
        st\<lparr>trace := trace st @ [Post (build_request cfg r)], failed := failed st + 1\<rparr>)
   \<and> posts_of (trace (send_messages_task cfg env)) =
       posts_of (trace (send_messages_task cfg env'))
   \<and> log_of (trace (send_messages_task cfg env)) =
       log_of (trace (send_messages_task cfg env'))
   \<and> (log_of (trace (send_messages_task cfg env)) = [] \<longrightarrow>
       map req_recipient (posts_of (trace (send_messages_task cfg env))) = recipient_ids cfg)"
proof -
  have a: "\<not> counted_successful (env i) \<longrightarrow>
      attempt cfg env i r st =
        st\<lparr>trace := trace st @ [Post (build_request cfg r)], failed := failed st + 1\<rparr>"
    by (simp add: attempt_def counted_successful_def Let_def split: post_result.split)
  have t: "trace (send_messages_task cfg env) = trace (send_messages_task cfg env')"
    by (rule task_trace_independent)
  have c: "log_of (trace (send_messages_task cfg env)) = [] \<longrightarrow>
       map req_recipient (posts_of (trace (send_messages_task cfg env))) = recipient_ids cfg"
  proof
    assume l: "log_of (trace (send_messages_task cfg env)) = []"
    show "map req_recipient (posts_of (trace (send_messages_task cfg env))) = recipient_ids cfg"
      by (simp only: task_posts [OF l] recipients_of_requests)
  qed
  have p: "posts_of (trace (send_messages_task cfg env)) =
       posts_of (trace (send_messages_task cfg env'))"
    by (simp only: t)
  have q: "log_of (trace (send_messages_task cfg env)) =
       log_of (trace (send_messages_task cfg env'))"
    by (simp only: t)
  from a p q c show ?thesis
    by blast
qed

text \<open>Ten recipients, of which the third and the seventh fail: nothing is printed and
  all ten are posted to, in order.\<close>

theorem C4_failures_do_not_stop_the_loop_witness:
  "\<not> counted_successful (flaky 2)
   \<and> failed (attempt (job ten_recipients 5 10 30) flaky 2 ''r3'' initial_frame) = 1
   \<and> log_of (trace (send_messages_task (job ten_recipients 5 10 30) flaky)) = []
   \<and> map req_recipient (posts_of (trace (send_messages_task (job ten_recipients 5 10 30) flaky))) =
       [''r1'', ''r2'', ''r3'', ''r4'', ''r5'', ''r6'', ''r7'', ''r8'', ''r9'', ''r10'']
   \<and> posts_of (trace (send_messages_task (job ten_recipients 5 10 30) flaky)) =
       posts_of (trace (send_messages_task (job ten_recipients 5 10 30) all_ok))"
proof -
  have f2: "\<not> counted_successful (flaky 2)" by code_simp
  have l: "log_of (trace (send_messages_task (job ten_recipients 5 10 30) flaky)) = []"
    by code_simp
  have r: "recipient_ids (job ten_recipients 5 10 30) =
      [''r1'', ''r2'', ''r3'', ''r4'', ''r5'', ''r6'', ''r7'', ''r8'', ''r9'', ''r10'']"
    by (simp add: job_def ten_recipients_def twelve_recipients_def)
  note t = C4_failures_do_not_stop_the_loop
      [of flaky 2 "job ten_recipients 5 10 30" "''r3''" initial_frame all_ok]
  from t f2 have "attempt (job ten_recipients 5 10 30) flaky 2 ''r3'' initial_frame =
      initial_frame\<lparr>trace := trace initial_frame @
        [Post (build_request (job ten_recipients 5 10 30) ''r3'')],
        failed := failed initial_frame + 1\<rparr>"
    by blast
  then have p1: "failed (attempt (job ten_recipients 5 10 30) flaky 2 ''r3'' initial_frame) = 1"
    by (simp add: initial_frame_def)
  from t have p2: "posts_of (trace (send_messages_task (job ten_recipients 5 10 30) flaky)) =
       posts_of (trace (send_messages_task (job ten_recipients 5 10 30) all_ok))"
    by blast
  from t l have "map req_recipient
        (posts_of (trace (send_messages_task (job ten_recipients 5 10 30) flaky))) =
       recipient_ids (job ten_recipients 5 10 30)"
    by blast
  then have p3: "map req_recipient
        (posts_of (trace (send_messages_task (job ten_recipients 5 10 30) flaky))) =
       [''r1'', ''r2'', ''r3'', ''r4'', ''r5'', ''r6'', ''r7'', ''r8'', ''r9'', ''r10'']"
    by (simp only: r)
  show ?thesis
    by (intro conjI f2 p1 l p3 p2)
qed

text \<open>The claim as stated fails, and not by a failed delivery. With \<open>batch_size = 0\<close> the
  modulo raises after the first post, and with a delay that \<^verbatim>\<open>asyncio.sleep\<close> cannot take
  the sleep raises after the first post: in both runs the second of two recipients is
  never posted to.\<close>

theorem C4_second_recipient_not_attempted:
  "recipient_ids (job [''r1'', ''r2''] 5 0 30) = [''r1'', ''r2'']
   \<and> map req_recipient
       (posts_of (trace (send_messages_task (job [''r1'', ''r2''] 5 0 30) first_refused))) =
     [''r1'']
   \<and> log_of (trace (send_messages_task (job [''r1'', ''r2''] 5 0 30) first_refused)) =
     [ZeroDivisionError]
   \<and> recipient_ids (job [''r1'', ''r2''] too_long 10 30) = [''r1'', ''r2'']
   \<and> map req_recipient
       (posts_of (trace (send_messages_task (job [''r1'', ''r2''] too_long 10 30) first_refused))) =
     [''r1'']
   \<and> log_of (trace (send_messages_task (job [''r1'', ''r2''] too_long 10 30) first_refused)) =
     [OverflowError]"
  by code_simp

text \<open>
  C5. The claim: a delivery is a success only for an explicit success response, and an
  error payload of the API is a failure even when it arrives with a success status. The
  send loop reads the status code and never the body: a response with status 200 whose
  body holds an \<^verbatim>\<open>error\<close> field, which the read endpoints of the same file treat as an
  error, is counted successful.
\<close>

theorem C5_error_body_counted_successful:
  "reports_error error_response
   \<and> status_code error_response = 200
   \<and> attempt cfg (\<lambda>k. Responded error_response) 0 r initial_frame =
       \<lparr>successful = 1, failed = 0, trace = [Post (build_request cfg r)]\<rparr>"
  by (simp add: reports_error_def error_response_def attempt_def initial_frame_def)

text \<open>
  C6. A job with no recipient ends with both counters at zero, no post, no sleep and no
  printed line, whatever its pacing parameters.
\<close>

theorem C6_empty_job:
  assumes "recipient_ids cfg = []"
  shows "send_messages_task cfg env = \<lparr>successful = 0, failed = 0, trace = []\<rparr>
    \<and> posts_of (trace (send_messages_task cfg env)) = []
    \<and> sleeps_of (trace (send_messages_task cfg env)) = []
    \<and> log_of (trace (send_messages_task cfg env)) = []"
  using assms by (simp add: task_empty initial_frame_def)

theorem C6_empty_job_witness:
  "recipient_ids (job [] 5 0 30) = []
   \<and> send_messages_task (job [] 5 0 30) flaky = \<lparr>successful = 0, failed = 0, trace = []\<rparr>
   \<and> sleeps_of (trace (send_messages_task (job [] 5 0 30) flaky)) = []"
proof -
  have h: "recipient_ids (job [] 5 0 30) = []" by (simp add: job_def)
  show ?thesis
    using C6_empty_job [OF h, of flaky] h by simp
qed

text \<open>
  C7. For every job the endpoint returns an acknowledgment whose status is
  \<^verbatim>\<open>processing\<close> and whose \<open>total_recipients\<close> is the length of the recipient list; at that
  moment the run has only been added to the background tasks, it has not been executed.
\<close>

theorem C7_acknowledgment:
  "(case send_messages cfg tasks of
      Inl err \<Rightarrow> False
    | Inr (ack, tasks') \<Rightarrow>
        status ack = ''processing''
        \<and> total_recipients ack = length (recipient_ids cfg)
        \<and> tasks' = tasks @ [cfg])"
  by (simp add: send_messages_def add_task_def)

theorem C7_acknowledgment_witness:
  "send_messages (job twelve_recipients 5 10 30) [] =
     Inr (\<lparr>status = ''processing'', message = ''Started sending 12 messages'',
           total_recipients = 12\<rparr>, [job twelve_recipients 5 10 30])"
proof -
  have e: "send_messages (job twelve_recipients 5 10 30) [] =
     Inr (\<lparr>status = ''processing'', message = ''Started sending 12 messages'',
           total_recipients = 12\<rparr>, [job twelve_recipients 5 10 30])"
    by code_simp
  show ?thesis
    using C7_acknowledgment [of "job twelve_recipients 5 10 30" "[]"] e by simp
qed

text \<open>
  C8, as the code has it. The claim asks for a log line with the tallies at the end of
  every completed run. The coroutine has no such line: when the loop completes with a
  frame, the coroutine ends with that frame, nothing has been printed, and its trace
  (posts and sleeps) is the same whatever the transmitter answered, so the tallies are in
  the two local counters and nowhere else.
\<close>

theorem C8_nothing_reported:
  assumes "send_loop cfg env 0 (recipient_ids cfg) initial_frame = Inr st"
  shows "send_messages_task cfg env = st
    \<and> log_of (trace (send_messages_task cfg env)) = []
    \<and> trace (send_messages_task cfg env) = trace (send_messages_task cfg env')"
proof -
  have t: "send_messages_task cfg env = st"
    using assms by (simp add: send_messages_task_def)
  have "log_of (trace st) = []"
    using send_loop_log [OF assms] by (simp add: initial_frame_def)
  then show ?thesis
    using t task_trace_independent [of cfg env env'] by simp
qed

theorem C8_nothing_reported_witness:
  "send_loop (job [''r1'', ''r2''] 5 10 30) flaky 0 (recipient_ids (job [''r1'', ''r2''] 5 10 30))
       initial_frame =
     Inr \<lparr>successful = 2, failed = 0,
          trace = [Post (build_request (job [''r1'', ''r2''] 5 10 30) ''r1''), Sleep 5,
                   Post (build_request (job [''r1'', ''r2''] 5 10 30) ''r2''), Sleep 5]\<rparr>
   \<and> log_of (trace (send_messages_task (job [''r1'', ''r2''] 5 10 30) flaky)) = []
   \<and> trace (send_messages_task (job [''r1'', ''r2''] 5 10 30) flaky) =
       trace (send_messages_task (job [''r1'', ''r2''] 5 10 30) first_refused)"
proof -
  have h: "send_loop (job [''r1'', ''r2''] 5 10 30) flaky 0
       (recipient_ids (job [''r1'', ''r2''] 5 10 30)) initial_frame =
     Inr \<lparr>successful = 2, failed = 0,
          trace = [Post (build_request (job [''r1'', ''r2''] 5 10 30) ''r1''), Sleep 5,
                   Post (build_request (job [''r1'', ''r2''] 5 10 30) ''r2''), Sleep 5]\<rparr>"
    by code_simp
  from C8_nothing_reported [OF h, of first_refused] h show ?thesis
    by blast
qed

text \<open>The claim as stated fails: a run of two recipients completes with the counters at 2
  and 0, and all it did was two posts and two sleeps; no line was printed.\<close>

theorem C8_completed_run_prints_nothing:
  "trace (send_messages_task (job [''r1'', ''r2''] 5 10 30) all_ok) =
     [Post (build_request (job [''r1'', ''r2''] 5 10 30) ''r1''), Sleep 5,
      Post (build_request (job [''r1'', ''r2''] 5 10 30) ''r2''), Sleep 5]
   \<and> log_of (trace (send_messages_task (job [''r1'', ''r2''] 5 10 30) all_ok)) = []
   \<and> successful (send_messages_task (job [''r1'', ''r2''] 5 10 30) all_ok) = 2
   \<and> failed (send_messages_task (job [''r1'', ''r2''] 5 10 30) all_ok) = 0"
  by code_simp

text \<open>
  C10. For a job with \<open>batch_size = 0\<close> and at least one recipient, the first post is made,
  the modulo of the delay logic then raises \<^verbatim>\<open>ZeroDivisionError\<close> outside the inner
  \<^verbatim>\<open>try\<close>, the loop is left, and the handler of the run prints the exception: the trace is
  that one post and that one line, no sleep and no further post, and the single count made
  so far is not reported.
\<close>

theorem C10_zero_batch_size:
  assumes "batch_size cfg = 0" and "recipient_ids cfg = r # rs"
  shows "send_loop cfg env 0 (recipient_ids cfg) initial_frame =
           Inl (ZeroDivisionError, attempt cfg env 0 r initial_frame)
    \<and> trace (send_messages_task cfg env) =
           [Post (build_request cfg r), Print_error ZeroDivisionError]
    \<and> posts_of (trace (send_messages_task cfg env)) = [build_request cfg r]
    \<and> sleeps_of (trace (send_messages_task cfg env)) = []
    \<and> successful (send_messages_task cfg env) + failed (send_messages_task cfg env) = 1"
proof -
  have l: "send_loop cfg env 0 (recipient_ids cfg) initial_frame =
           Inl (ZeroDivisionError, attempt cfg env 0 r initial_frame)"
    using assms by (simp add: delay_logic_zero)
  have t: "trace (send_messages_task cfg env) =
           [Post (build_request cfg r), Print_error ZeroDivisionError]"
    using assms by (simp add: task_zero run_level_handler_def attempt_trace initial_frame_def)
  have c: "successful (send_messages_task cfg env) + failed (send_messages_task cfg env) = 1"
    using assms
    by (simp add: task_zero run_level_handler_def attempt_successful attempt_failed
        initial_frame_def)
  show ?thesis
    using l t c by simp
qed

theorem C10_zero_batch_size_witness:
  "batch_size (job twelve_recipients 5 0 30) = 0
   \<and> recipient_ids (job twelve_recipients 5 0 30) = ''r1'' # tl twelve_recipients
   \<and> trace (send_messages_task (job twelve_recipients 5 0 30) flaky) =
       [Post (build_request (job twelve_recipients 5 0 30) ''r1''), Print_error ZeroDivisionError]
   \<and> posts_of (trace (send_messages_task (job twelve_recipients 5 0 30) flaky)) =
       [build_request (job twelve_recipients 5 0 30) ''r1'']"
proof -
  have b: "batch_size (job twelve_recipients 5 0 30) = 0"
    by (simp add: job_def)
  have r: "recipient_ids (job twelve_recipients 5 0 30) = ''r1'' # tl twelve_recipients"
    by (simp add: job_def twelve_recipients_def)
  from C10_zero_batch_size [OF b r, of flaky] b r show ?thesis
    by blast
qed

end
